theory Spec2Isabelle
  imports Main
begin

section \<open>Highlight resolution of chatterino's SharedMessageBuilder\<close>

text \<open>
  A shallow embedding of \<^verbatim>\<open>src/messages/SharedMessageBuilder.cpp\<close>: the fallback
  sound, the badge parser, \<^verbatim>\<open>parseHighlights\<close> and \<^verbatim>\<open>triggerHighlights\<close>.
  The builder object is a record that every function takes and returns; the singletons
  the code reads (\<^verbatim>\<open>getSettings()\<close>, \<^verbatim>\<open>getCSettings()\<close>, the current account, the
  colour provider, the file system, the focus and the thread) are the fields of one
  environment record.
\<close>

subsection \<open>Values\<close>

text \<open>
  A \<^verbatim>\<open>QUrl\<close> is kept as the way it was built: from a string, or from a local file path
  by \<^verbatim>\<open>QUrl::fromLocalFile\<close>. \<^verbatim>\<open>QUrl()\<close> is \<open>QUrl []\<close>.
\<close>

datatype QUrl = QUrl string | fromLocalFile string

datatype QColor = QColor nat

datatype ColorType = SelfHighlight | Subscription | Whisper

datatype MessageFlag = Highlighted | Subscription | ShowInMentions | Collapsed

datatype Badge = Badge string string

text \<open>
  The arguments of the \<^verbatim>\<open>HighlightPhrase\<close> constructor as \<^verbatim>\<open>parseHighlights\<close> calls it
  for the self highlight: pattern, show in mentions, alert, sound, regex, case
  sensitive, sound URL, colour.
\<close>

record HighlightPhrase =
  pattern :: string
  showInMentions :: bool
  hasAlert :: bool
  hasSound :: bool
  isRegex :: bool
  isCaseSensitive :: bool
  soundUrl :: string
  getColor :: QColor

record HighlightBadge =
  badgeName :: string
  badgeHasAlert :: bool
  badgeHasSound :: bool
  badgeSoundUrl :: string
  badgeColor :: QColor

text \<open>
  Modelled from the spec: \<^verbatim>\<open>HighlightPhrase::hasCustomSound\<close> and \<^verbatim>\<open>getSoundUrl\<close>
  (controllers/highlights/HighlightPhrase.hpp) and their \<^verbatim>\<open>HighlightBadge\<close> namesakes
  are not among the sources. A rule carries an optional custom sound URL; the
  constructor receives it as a string, and the empty string stands for none.
\<close>

definition hasCustomSound :: "HighlightPhrase \<Rightarrow> bool" where
  "hasCustomSound p = (soundUrl p \<noteq> [])"

definition getSoundUrl :: "HighlightPhrase \<Rightarrow> QUrl" where
  "getSoundUrl p = QUrl (soundUrl p)"

definition badgeHasCustomSound :: "HighlightBadge \<Rightarrow> bool" where
  "badgeHasCustomSound h = (badgeSoundUrl h \<noteq> [])"

definition badgeGetSoundUrl :: "HighlightBadge \<Rightarrow> QUrl" where
  "badgeGetSoundUrl h = QUrl (badgeSoundUrl h)"

subsection \<open>The environment\<close>

text \<open>
  What the code reads from outside the builder. The two \<^verbatim>\<open>isMatch\<close> methods, the
  blacklist and the muted channels are code that is not among the sources, so they are
  parameters: any predicate may stand for them.
\<close>

record Env =
  \<comment> \<open>getSettings()\<close>
  pathHighlightSound :: string
  customHighlightSound :: bool
  enableSubHighlight :: bool
  enableSubHighlightTaskbar :: bool
  enableSubHighlightSound :: bool
  subHighlightSoundUrl :: string
  enableWhisperHighlight :: bool
  enableWhisperHighlightTaskbar :: bool
  enableWhisperHighlightSound :: bool
  whisperHighlightSoundUrl :: string
  highlightedMessages :: "HighlightPhrase list"
  enableSelfHighlight :: bool
  showSelfHighlightInMentions :: bool
  enableSelfHighlightTaskbar :: bool
  enableSelfHighlightSound :: bool
  selfHighlightSoundUrl :: string
  streamerModeMuteMentions :: bool
  highlightAlwaysPlaySound :: bool
  \<comment> \<open>getCSettings()\<close>
  highlightedUsers :: "HighlightPhrase list"
  highlightedBadges :: "HighlightBadge list"
  isBlacklistedUser :: "string \<Rightarrow> bool"
  isMutedChannel :: "string \<Rightarrow> bool"
  \<comment> \<open>app->accounts->twitch.getCurrent()\<close>
  getUserName :: string
  isAnon :: bool
  \<comment> \<open>ColorProvider::instance().color\<close>
  color :: "ColorType \<Rightarrow> QColor"
  \<comment> \<open>HighlightPhrase::isMatch, HighlightBadge::isMatch\<close>
  isMatch :: "HighlightPhrase \<Rightarrow> string \<Rightarrow> bool"
  badgeIsMatch :: "HighlightBadge \<Rightarrow> Badge \<Rightarrow> bool"
  \<comment> \<open>QFileInfo::exists(path), QFileInfo(path).isFile()\<close>
  fileExists :: "string \<Rightarrow> bool"
  isFile :: "string \<Rightarrow> bool"
  \<comment> \<open>isInStreamerMode(), QApplication::focusWidget() != nullptr, isGuiThread()\<close>
  isInStreamerMode :: bool
  focusWidget :: bool
  isGuiThread :: bool

subsection \<open>The builder\<close>

text \<open>
  The members of \<^verbatim>\<open>SharedMessageBuilder\<close> that the highlight code reads or writes.
  \<open>flags\<close> and \<open>highlightColor\<close> are those of \<^verbatim>\<open>this->message()\<close>; the colour is
  a shared pointer, null until a category sets it. The tags are IRC tags: strings.
  The members \<^verbatim>\<open>originalMessage_\<close>, \<^verbatim>\<open>highlightAlert_\<close>, \<^verbatim>\<open>highlightSound_\<close> and
  \<^verbatim>\<open>highlightSoundUrl_\<close> lose their trailing underscore, which a name cannot end with.
\<close>

record SharedMessageBuilder =
  channelName :: string
  nick :: string
  isReceivedWhisper :: bool
  tags :: "string \<rightharpoonup> string"
  originalMessage :: string
  flags :: "MessageFlag set"
  highlightColor :: "QColor option"
  highlightAlert :: bool
  highlightSound :: bool
  highlightSoundUrl :: QUrl

subsection \<open>getFallbackHighlightSound\<close>

definition getFallbackHighlightSound :: "Env \<Rightarrow> QUrl" where
  "getFallbackHighlightSound e =
     (let path = pathHighlightSound e;
          fileExists = fileExists e path \<and> isFile e path
      in if customHighlightSound e \<and> fileExists then fromLocalFile path
         else QUrl ''qrc:/sounds/ping2.wav'')"

subsection \<open>parseTagList and parseBadges\<close>

text \<open>
  \<^verbatim>\<open>QString::split(sep, behavior)\<close> of Qt: the string is cut at every occurrence of
  the separator, so a string with \<open>n\<close> separators has \<open>n + 1\<close> parts, empty ones
  included; \<^verbatim>\<open>SkipEmptyParts\<close> then leaves the empty parts out. \<open>cur\<close> is the part
  being read, reversed.
\<close>

datatype SplitBehavior = KeepEmptyParts | SkipEmptyParts

fun splitParts :: "char \<Rightarrow> string \<Rightarrow> string \<Rightarrow> string list" where
  "splitParts sep cur [] = [rev cur]"
| "splitParts sep cur (c # cs) =
     (if c = sep then rev cur # splitParts sep [] cs else splitParts sep (c # cur) cs)"

fun split :: "char \<Rightarrow> SplitBehavior \<Rightarrow> string \<Rightarrow> string list" where
  "split sep KeepEmptyParts s = splitParts sep [] s"
| "split sep SkipEmptyParts s = filter (\<lambda>p. p \<noteq> []) (splitParts sep [] s)"

definition parseTagList :: "(string \<rightharpoonup> string) \<Rightarrow> string \<Rightarrow> string list" where
  "parseTagList tgs key =
     (case tgs key of
        None \<Rightarrow> []
      | Some v \<Rightarrow> split (CHR '','') SkipEmptyParts v)"

text \<open>The loop of \<^verbatim>\<open>parseBadges\<close>: \<open>badges\<close> is the vector built so far.\<close>

fun parseBadgesLoop :: "string list \<Rightarrow> Badge list \<Rightarrow> Badge list" where
  "parseBadgesLoop [] badges = badges"
| "parseBadgesLoop (badge # rest) badges =
     (let parts = split (CHR ''/'') KeepEmptyParts badge
      in if length parts \<noteq> 2 then parseBadgesLoop rest badges
         else parseBadgesLoop rest (badges @ [Badge (parts ! 0) (parts ! 1)]))"

definition parseBadges :: "(string \<rightharpoonup> string) \<Rightarrow> Badge list" where
  "parseBadges tgs = parseBadgesLoop (parseTagList tgs ''badges'') []"

text \<open>
  The badge parser in the words of its specification: split the value of the
  \<^verbatim>\<open>badges\<close> tag on commas, skip the empty tokens, split each token on the slash,
  keep the tokens that have exactly two parts, in their order.
\<close>

definition spec_badgeTokens :: "(string \<rightharpoonup> string) \<Rightarrow> string list" where
  "spec_badgeTokens tgs =
     (case tgs ''badges'' of
        None \<Rightarrow> []
      | Some v \<Rightarrow> filter (\<lambda>t. t \<noteq> []) (split (CHR '','') KeepEmptyParts v))"

definition spec_parseBadges :: "(string \<rightharpoonup> string) \<Rightarrow> Badge list" where
  "spec_parseBadges tgs =
     map (\<lambda>parts. Badge (parts ! 0) (parts ! 1))
       (filter (\<lambda>parts. length parts = 2)
         (map (split (CHR ''/'') KeepEmptyParts) (spec_badgeTokens tgs)))"

subsection \<open>parseHighlights\<close>

text \<open>
  The function is a sequence of blocks, one per category; each block is a definition
  here, in the order of the source, and \<open>parseHighlights\<close> below puts them together
  with the early returns between them.
\<close>

text \<open>Highlight because it's a subscription.\<close>

definition subscriptionHighlight :: "Env \<Rightarrow> SharedMessageBuilder \<Rightarrow> SharedMessageBuilder" where
  "subscriptionHighlight e b =
     (if MessageFlag.Subscription \<in> flags b \<and> enableSubHighlight e then
        let b1 = (if enableSubHighlightTaskbar e then b\<lparr>highlightAlert := True\<rparr> else b);
            b2 = (if enableSubHighlightSound e then
                    b1\<lparr>highlightSound := True,
                       highlightSoundUrl :=
                         (if subHighlightSoundUrl e \<noteq> [] then QUrl (subHighlightSoundUrl e)
                          else getFallbackHighlightSound e)\<rparr>
                  else b1)
        in b2\<lparr>flags := insert Highlighted (flags b2),
               highlightColor := Some (color e ColorType.Subscription)\<rparr>
      else b)"

text \<open>Highlight because it's a whisper.\<close>

definition whisperHighlight :: "Env \<Rightarrow> SharedMessageBuilder \<Rightarrow> SharedMessageBuilder" where
  "whisperHighlight e b =
     (if isReceivedWhisper b \<and> enableWhisperHighlight e then
        let b1 = (if enableWhisperHighlightTaskbar e then b\<lparr>highlightAlert := True\<rparr> else b);
            b2 = (if enableWhisperHighlightSound e then
                    b1\<lparr>highlightSound := True,
                       highlightSoundUrl :=
                         (if whisperHighlightSoundUrl e \<noteq> []
                          then QUrl (whisperHighlightSoundUrl e)
                          else getFallbackHighlightSound e)\<rparr>
                  else b1)
        in b2\<lparr>highlightColor := Some (color e ColorType.Whisper)\<rparr>
      else b)"

text \<open>
  Highlight because of sender: the body of the loop for a rule that matches, up to the
  test that ends the loop.
\<close>

definition applyUserHighlight ::
  "Env \<Rightarrow> HighlightPhrase \<Rightarrow> SharedMessageBuilder \<Rightarrow> SharedMessageBuilder" where
  "applyUserHighlight e userHighlight b =
     (let b1 = b\<lparr>flags := insert Highlighted (flags b)\<rparr>;
          b2 = (if \<not> (MessageFlag.Subscription \<in> flags b1 \<and> enableSubHighlight e)
                then b1\<lparr>highlightColor := Some (getColor userHighlight)\<rparr> else b1);
          b3 = (if showInMentions userHighlight
                then b2\<lparr>flags := insert ShowInMentions (flags b2)\<rparr> else b2);
          b4 = (if hasAlert userHighlight then b3\<lparr>highlightAlert := True\<rparr> else b3)
      in if hasSound userHighlight then
           b4\<lparr>highlightSound := True,
              highlightSoundUrl :=
                (if hasCustomSound userHighlight then getSoundUrl userHighlight
                 else getFallbackHighlightSound e)\<rparr>
         else b4)"

text \<open>
  How a block ends: by the \<^verbatim>\<open>return\<close> of the function, or by reaching the code
  after it.
\<close>

datatype Exit = Returned SharedMessageBuilder | FallThrough SharedMessageBuilder

fun builderOf :: "Exit \<Rightarrow> SharedMessageBuilder" where
  "builderOf (Returned b) = b"
| "builderOf (FallThrough b) = b"

fun userHighlights :: "Env \<Rightarrow> HighlightPhrase list \<Rightarrow> SharedMessageBuilder \<Rightarrow> Exit" where
  "userHighlights e [] b = FallThrough b"
| "userHighlights e (userHighlight # rest) b =
     (if \<not> isMatch e userHighlight (nick b) then userHighlights e rest b
      else let b' = applyUserHighlight e userHighlight b
           in if highlightAlert b' \<and> highlightSound b' then Returned b'
              else userHighlights e rest b')"

text \<open>The self highlight that is appended to the highlight phrases.\<close>

definition selfHighlight :: "Env \<Rightarrow> HighlightPhrase" where
  "selfHighlight e =
     \<lparr>pattern = getUserName e,
      showInMentions = showSelfHighlightInMentions e,
      hasAlert = enableSelfHighlightTaskbar e,
      hasSound = enableSelfHighlightSound e,
      isRegex = False,
      isCaseSensitive = False,
      soundUrl = selfHighlightSoundUrl e,
      getColor = color e SelfHighlight\<rparr>"

definition activeHighlights :: "Env \<Rightarrow> HighlightPhrase list" where
  "activeHighlights e =
     (if \<not> isAnon e \<and> enableSelfHighlight e \<and> length (getUserName e) > 0
      then highlightedMessages e @ [selfHighlight e]
      else highlightedMessages e)"

text \<open>Highlight because of message: the body for a phrase that matches, then the loop.\<close>

definition applyPhraseHighlight ::
  "Env \<Rightarrow> HighlightPhrase \<Rightarrow> SharedMessageBuilder \<Rightarrow> SharedMessageBuilder" where
  "applyPhraseHighlight e highlight b =
     (let b1 = b\<lparr>flags := insert Highlighted (flags b)\<rparr>;
          b2 = (if \<not> (MessageFlag.Subscription \<in> flags b1 \<and> enableSubHighlight e)
                then b1\<lparr>highlightColor := Some (getColor highlight)\<rparr> else b1);
          b3 = (if showInMentions highlight
                then b2\<lparr>flags := insert ShowInMentions (flags b2)\<rparr> else b2);
          b4 = (if hasAlert highlight then b3\<lparr>highlightAlert := True\<rparr> else b3)
      in if hasSound highlight \<and> \<not> highlightSound b4 then
           b4\<lparr>highlightSound := True,
              highlightSoundUrl :=
                (if hasCustomSound highlight then getSoundUrl highlight
                 else getFallbackHighlightSound e)\<rparr>
         else b4)"

fun phraseHighlights ::
  "Env \<Rightarrow> HighlightPhrase list \<Rightarrow> SharedMessageBuilder \<Rightarrow> SharedMessageBuilder" where
  "phraseHighlights e [] b = b"
| "phraseHighlights e (highlight # rest) b =
     (if \<not> isMatch e highlight (originalMessage b) then phraseHighlights e rest b
      else let b' = applyPhraseHighlight e highlight b
           in if highlightAlert b' \<and> highlightSound b' then b'
              else phraseHighlights e rest b')"

text \<open>
  Highlight because of badge. The state of the two loops is the local
  \<^verbatim>\<open>badgeHighlightSet\<close> and the builder. The inner loop runs over the badges of the
  message for one rule and stops at its \<^verbatim>\<open>break\<close>; the outer loop runs it for every
  rule.
\<close>

definition applyBadgeHighlight ::
  "Env \<Rightarrow> HighlightBadge \<Rightarrow> bool \<times> SharedMessageBuilder \<Rightarrow> bool \<times> SharedMessageBuilder" where
  "applyBadgeHighlight e highlight st =
     (let badgeHighlightSet = fst st; b = snd st;
          b2 = (if \<not> badgeHighlightSet then
                  let b1 = b\<lparr>flags := insert Highlighted (flags b)\<rparr>
                  in if \<not> (MessageFlag.Subscription \<in> flags b1 \<and> enableSubHighlight e)
                     then b1\<lparr>highlightColor := Some (badgeColor highlight)\<rparr> else b1
                else b);
          b3 = (if badgeHasAlert highlight then b2\<lparr>highlightAlert := True\<rparr> else b2);
          b4 = (if badgeHasSound highlight \<and> \<not> highlightSound b3 then
                  b3\<lparr>highlightSound := True,
                     highlightSoundUrl :=
                       (if badgeHasCustomSound highlight then badgeGetSoundUrl highlight
                        else getFallbackHighlightSound e)\<rparr>
                else b3)
      in (True, b4))"

fun badgeInner ::
  "Env \<Rightarrow> HighlightBadge \<Rightarrow> Badge list \<Rightarrow> bool \<times> SharedMessageBuilder
     \<Rightarrow> bool \<times> SharedMessageBuilder" where
  "badgeInner e highlight [] st = st"
| "badgeInner e highlight (badge # rest) st =
     (if \<not> badgeIsMatch e highlight badge then badgeInner e highlight rest st
      else let st' = applyBadgeHighlight e highlight st
           in if highlightAlert (snd st') \<and> highlightSound (snd st') then st'
              else badgeInner e highlight rest st')"

fun badgeHighlights ::
  "Env \<Rightarrow> HighlightBadge list \<Rightarrow> Badge list \<Rightarrow> bool \<times> SharedMessageBuilder
     \<Rightarrow> bool \<times> SharedMessageBuilder" where
  "badgeHighlights e [] badges st = st"
| "badgeHighlights e (highlight # rest) badges st =
     badgeHighlights e rest badges (badgeInner e highlight badges st)"

definition parseHighlights :: "Env \<Rightarrow> SharedMessageBuilder \<Rightarrow> SharedMessageBuilder" where
  "parseHighlights e b =
     (let b1 = subscriptionHighlight e b;
          currentUsername = getUserName e
      in if isBlacklistedUser e (nick b1) then b1
         else
           let b2 = whisperHighlight e b1
           in case userHighlights e (highlightedUsers e) b2 of
                Returned b3 \<Rightarrow> b3
              | FallThrough b3 \<Rightarrow>
                  if nick b3 = currentUsername then b3
                  else
                    let b4 = phraseHighlights e (activeHighlights e) b3;
                        badges = parseBadges (tags b4)
                    in snd (badgeHighlights e (highlightedBadges e) badges (False, b4)))"

subsection \<open>triggerHighlights\<close>

text \<open>
  The calls that leave the builder, in their order: on the media player
  (\<^verbatim>\<open>setMedia\<close>, \<^verbatim>\<open>play\<close>) and on the window manager (\<^verbatim>\<open>sendAlert\<close>). The static
  \<^verbatim>\<open>currentPlayerUrl\<close> is passed in and returned. \<^verbatim>\<open>getPlayer()\<close> is a player on the
  GUI thread and null on any other.
\<close>

datatype SinkCall = SetMedia QUrl | Play | SendAlert

definition triggerHighlights ::
  "Env \<Rightarrow> SharedMessageBuilder \<Rightarrow> QUrl \<Rightarrow> SinkCall list \<times> QUrl" where
  "triggerHighlights e b currentPlayerUrl =
     (if isInStreamerMode e \<and> streamerModeMuteMentions e then ([], currentPlayerUrl)
      else if isMutedChannel e (channelName b) then ([], currentPlayerUrl)
      else
        let hasFocus = focusWidget e;
            resolveFocus = (\<not> hasFocus \<or> highlightAlwaysPlaySound e);
            sound =
              (if highlightSound b \<and> resolveFocus then
                 if isGuiThread e then
                   ((if currentPlayerUrl \<noteq> highlightSoundUrl b
                     then [SetMedia (highlightSoundUrl b)] else []) @ [Play],
                    highlightSoundUrl b)
                 else ([], currentPlayerUrl)
               else ([], currentPlayerUrl));
            alert = (if highlightAlert b then [SendAlert] else [])
        in (fst sound @ alert, snd sound))"

subsection \<open>Example inputs\<close>

definition exampleEnv :: Env where
  "exampleEnv =
     \<lparr>pathHighlightSound = ''/home/user/ping.wav'',
      customHighlightSound = False,
      enableSubHighlight = True,
      enableSubHighlightTaskbar = False,
      enableSubHighlightSound = False,
      subHighlightSoundUrl = [],
      enableWhisperHighlight = True,
      enableWhisperHighlightTaskbar = True,
      enableWhisperHighlightSound = True,
      whisperHighlightSoundUrl = ''whisper.wav'',
      highlightedMessages = [],
      enableSelfHighlight = False,
      showSelfHighlightInMentions = False,
      enableSelfHighlightTaskbar = False,
      enableSelfHighlightSound = False,
      selfHighlightSoundUrl = [],
      streamerModeMuteMentions = False,
      highlightAlwaysPlaySound = False,
      highlightedUsers = [],
      highlightedBadges = [],
      isBlacklistedUser = (\<lambda>n. n = ''troll''),
      isMutedChannel = (\<lambda>c. c = ''quiet''),
      getUserName = ''me'',
      isAnon = False,
      color = (\<lambda>t. case t of SelfHighlight \<Rightarrow> QColor 4 | ColorType.Subscription \<Rightarrow> QColor 2
                 | Whisper \<Rightarrow> QColor 3),
      isMatch = (\<lambda>p s. pattern p = s),
      badgeIsMatch = (\<lambda>h bd. case bd of Badge k v \<Rightarrow> badgeName h = k),
      fileExists = (\<lambda>p. False),
      isFile = (\<lambda>p. False),
      isInStreamerMode = False,
      focusWidget = False,
      isGuiThread = True\<rparr>"

definition exampleMessage :: SharedMessageBuilder where
  "exampleMessage =
     \<lparr>channelName = ''forsen'',
      nick = ''alice'',
      isReceivedWhisper = False,
      tags = [''badges'' \<mapsto> ''malformed,subscriber/12''],
      originalMessage = ''hello'',
      flags = {},
      highlightColor = None,
      highlightAlert = False,
      highlightSound = False,
      highlightSoundUrl = QUrl []\<rparr>"

definition exampleRule :: "string \<Rightarrow> bool \<Rightarrow> bool \<Rightarrow> string \<Rightarrow> nat \<Rightarrow> HighlightPhrase" where
  "exampleRule p a s u c =
     \<lparr>pattern = p, showInMentions = False, hasAlert = a, hasSound = s, isRegex = False,
      isCaseSensitive = False, soundUrl = u, getColor = QColor c\<rparr>"

definition exampleBadgeRule :: "string \<Rightarrow> bool \<Rightarrow> bool \<Rightarrow> string \<Rightarrow> nat \<Rightarrow> HighlightBadge" where
  "exampleBadgeRule n a s u c =
     \<lparr>badgeName = n, badgeHasAlert = a, badgeHasSound = s, badgeSoundUrl = u,
      badgeColor = QColor c\<rparr>"

section \<open>Properties\<close>

lemmas example_defs =
  exampleEnv_def exampleMessage_def exampleRule_def exampleBadgeRule_def
  parseHighlights_def subscriptionHighlight_def whisperHighlight_def applyUserHighlight_def
  applyPhraseHighlight_def applyBadgeHighlight_def activeHighlights_def selfHighlight_def
  parseBadges_def parseTagList_def getFallbackHighlightSound_def hasCustomSound_def
  getSoundUrl_def badgeHasCustomSound_def badgeGetSoundUrl_def triggerHighlights_def Let_def

subsection \<open>Badges\<close>

lemma splitParts_length: "length (splitParts sep cur s) = Suc (count_list s sep)"
  by (induction s arbitrary: cur) simp_all

lemma splitParts_no_sep:
  "sep \<notin> set cur \<Longrightarrow> \<forall>p \<in> set (splitParts sep cur s). sep \<notin> set p"
proof (induction s arbitrary: cur)
  case Nil
  then show ?case by simp
next
  case (Cons c s)
  have "\<forall>p \<in> set (splitParts sep [] s). sep \<notin> set p"
    using Cons.IH [of "[]"] by simp
  moreover have "c \<noteq> sep \<Longrightarrow> \<forall>p \<in> set (splitParts sep (c # cur) s). sep \<notin> set p"
    using Cons.IH [of "c # cur"] Cons.prems by simp
  ultimately show ?case using Cons.prems by simp
qed

lemma split_SkipEmptyParts:
  "split sep SkipEmptyParts s = filter (\<lambda>p. p \<noteq> []) (split sep KeepEmptyParts s)"
  by simp

lemma parseBadgesLoop_eq:
  "parseBadgesLoop ts acc =
     acc @ map (\<lambda>parts. Badge (parts ! 0) (parts ! 1))
             (filter (\<lambda>parts. length parts = 2) (map (split (CHR ''/'') KeepEmptyParts) ts))"
  by (induction ts arbitrary: acc) (simp_all add: Let_def del: split.simps)

text \<open>
  Claim C7. For every tag mapping, \<open>parseBadges\<close> returns exactly the badges of the
  specification: the value of the \<^verbatim>\<open>badges\<close> tag split on commas, empty tokens skipped, each
  token split on the slash and kept if and only if it has exactly two parts, in the
  order of the tag value; a token with any other number of parts is dropped and nothing
  fails. The value \<^verbatim>\<open>malformed,subscriber/12\<close> gives the one badge subscriber, 12.
\<close>

theorem parseBadges_refines_spec:
  "parseBadges tgs = spec_parseBadges tgs \<and>
   parseBadges [''badges'' \<mapsto> ''malformed,subscriber/12''] = [Badge ''subscriber'' ''12'']"
proof
  show "parseBadges tgs = spec_parseBadges tgs"
    by (cases "tgs ''badges''")
       (simp_all add: parseBadges_def spec_parseBadges_def parseTagList_def
          spec_badgeTokens_def parseBadgesLoop_eq del: split.simps, simp)
  show "parseBadges [''badges'' \<mapsto> ''malformed,subscriber/12''] = [Badge ''subscriber'' ''12'']"
    by (simp add: parseBadges_def parseTagList_def)
qed

subsection \<open>Fallback\<close>

text \<open>
  Claim C9. \<open>getFallbackHighlightSound\<close> is total and always returns a URL: the
  local-file URL of the configured path when the custom highlight sound is enabled and
  the path exists and is a regular file, and \<^verbatim>\<open>qrc:/sounds/ping2.wav\<close> in every other case,
  a missing or invalid custom file included.
\<close>

theorem getFallbackHighlightSound_cases:
  "(customHighlightSound e \<and> fileExists e (pathHighlightSound e) \<and> isFile e (pathHighlightSound e)
      \<longrightarrow> getFallbackHighlightSound e = fromLocalFile (pathHighlightSound e)) \<and>
   (\<not> (customHighlightSound e \<and> fileExists e (pathHighlightSound e)
        \<and> isFile e (pathHighlightSound e))
      \<longrightarrow> getFallbackHighlightSound e = QUrl ''qrc:/sounds/ping2.wav'')"
  by (simp add: getFallbackHighlightSound_def Let_def)

subsection \<open>Frames\<close>

lemma subscriptionHighlight_frame [simp]:
  "nick (subscriptionHighlight e b) = nick b"
  "originalMessage (subscriptionHighlight e b) = originalMessage b"
  "tags (subscriptionHighlight e b) = tags b"
  "isReceivedWhisper (subscriptionHighlight e b) = isReceivedWhisper b"
  by (simp_all add: subscriptionHighlight_def Let_def)

lemma whisperHighlight_frame [simp]:
  "nick (whisperHighlight e b) = nick b"
  "originalMessage (whisperHighlight e b) = originalMessage b"
  "tags (whisperHighlight e b) = tags b"
  "flags (whisperHighlight e b) = flags b"
  by (simp_all add: whisperHighlight_def Let_def)

lemma applyUserHighlight_frame [simp]:
  "nick (applyUserHighlight e u b) = nick b"
  "originalMessage (applyUserHighlight e u b) = originalMessage b"
  "tags (applyUserHighlight e u b) = tags b"
  by (simp_all add: applyUserHighlight_def Let_def)

lemma applyPhraseHighlight_frame [simp]:
  "nick (applyPhraseHighlight e u b) = nick b"
  "originalMessage (applyPhraseHighlight e u b) = originalMessage b"
  "tags (applyPhraseHighlight e u b) = tags b"
  by (simp_all add: applyPhraseHighlight_def Let_def)

lemma userHighlights_nick [simp]: "nick (builderOf (userHighlights e us b)) = nick b"
  by (induction us arbitrary: b) (simp_all add: Let_def)

lemma userHighlights_tags [simp]: "tags (builderOf (userHighlights e us b)) = tags b"
  by (induction us arbitrary: b) (simp_all add: Let_def)

lemma userHighlights_originalMessage [simp]:
  "originalMessage (builderOf (userHighlights e us b)) = originalMessage b"
  by (induction us arbitrary: b) (simp_all add: Let_def)

lemma phraseHighlights_tags [simp]: "tags (phraseHighlights e hs b) = tags b"
  by (induction hs arbitrary: b) (simp_all add: Let_def)

subsection \<open>Blacklist\<close>

text \<open>
  Claim C4. For a sender on the highlight blacklist, \<open>parseHighlights\<close> returns right
  after the subscription block: the result is the builder as that block left it, so no
  whisper, user, phrase or badge rule sets a flag, the colour, the alert or the sound,
  whatever those rules match.
\<close>

theorem blacklisted_sender_returns_after_subscription:
  "isBlacklistedUser e (nick b) \<Longrightarrow> parseHighlights e b = subscriptionHighlight e b"
  by (simp add: parseHighlights_def Let_def)

subsection \<open>Sub guard\<close>

lemma applyUserHighlight_sub:
  "MessageFlag.Subscription \<in> flags b \<Longrightarrow> enableSubHighlight e \<Longrightarrow>
   highlightColor (applyUserHighlight e u b) = highlightColor b \<and>
   MessageFlag.Subscription \<in> flags (applyUserHighlight e u b)"
  by (simp add: applyUserHighlight_def Let_def)

lemma applyPhraseHighlight_sub:
  "MessageFlag.Subscription \<in> flags b \<Longrightarrow> enableSubHighlight e \<Longrightarrow>
   highlightColor (applyPhraseHighlight e u b) = highlightColor b \<and>
   MessageFlag.Subscription \<in> flags (applyPhraseHighlight e u b)"
  by (simp add: applyPhraseHighlight_def Let_def)

lemma applyBadgeHighlight_sub:
  "MessageFlag.Subscription \<in> flags (snd st) \<Longrightarrow> enableSubHighlight e \<Longrightarrow>
   highlightColor (snd (applyBadgeHighlight e h st)) = highlightColor (snd st) \<and>
   MessageFlag.Subscription \<in> flags (snd (applyBadgeHighlight e h st))"
  by (simp add: applyBadgeHighlight_def Let_def)

lemma userHighlights_sub:
  "MessageFlag.Subscription \<in> flags b \<Longrightarrow> enableSubHighlight e \<Longrightarrow>
   highlightColor (builderOf (userHighlights e us b)) = highlightColor b \<and>
   MessageFlag.Subscription \<in> flags (builderOf (userHighlights e us b))"
proof (induction us arbitrary: b)
  case Nil
  then show ?case by simp
next
  case (Cons u us)
  show ?case
  proof (cases "isMatch e u (nick b)")
    case False
    then show ?thesis using Cons by simp
  next
    case True
    let ?b = "applyUserHighlight e u b"
    have step: "highlightColor ?b = highlightColor b" "MessageFlag.Subscription \<in> flags ?b"
      using applyUserHighlight_sub [OF Cons.prems] by simp_all
    show ?thesis
    proof (cases "highlightAlert ?b \<and> highlightSound ?b")
      case True
      then show ?thesis using \<open>isMatch e u (nick b)\<close> step by (simp add: Let_def)
    next
      case False
      then show ?thesis
        using \<open>isMatch e u (nick b)\<close> step Cons.IH [OF step(2) Cons.prems(2)]
        by (simp add: Let_def)
    qed
  qed
qed

lemma phraseHighlights_sub:
  "MessageFlag.Subscription \<in> flags b \<Longrightarrow> enableSubHighlight e \<Longrightarrow>
   highlightColor (phraseHighlights e hs b) = highlightColor b \<and>
   MessageFlag.Subscription \<in> flags (phraseHighlights e hs b)"
proof (induction hs arbitrary: b)
  case Nil
  then show ?case by simp
next
  case (Cons h hs)
  show ?case
  proof (cases "isMatch e h (originalMessage b)")
    case False
    then show ?thesis using Cons by simp
  next
    case True
    let ?b = "applyPhraseHighlight e h b"
    have step: "highlightColor ?b = highlightColor b" "MessageFlag.Subscription \<in> flags ?b"
      using applyPhraseHighlight_sub [OF Cons.prems] by simp_all
    show ?thesis
    proof (cases "highlightAlert ?b \<and> highlightSound ?b")
      case True
      then show ?thesis using \<open>isMatch e h (originalMessage b)\<close> step by (simp add: Let_def)
    next
      case False
      then show ?thesis
        using \<open>isMatch e h (originalMessage b)\<close> step Cons.IH [OF step(2) Cons.prems(2)]
        by (simp add: Let_def)
    qed
  qed
qed

lemma badgeInner_sub:
  "MessageFlag.Subscription \<in> flags (snd st) \<Longrightarrow> enableSubHighlight e \<Longrightarrow>
   highlightColor (snd (badgeInner e h badges st)) = highlightColor (snd st) \<and>
   MessageFlag.Subscription \<in> flags (snd (badgeInner e h badges st))"
proof (induction badges arbitrary: st)
  case Nil
  then show ?case by simp
next
  case (Cons x xs)
  show ?case
  proof (cases "badgeIsMatch e h x")
    case False
    then show ?thesis using Cons by simp
  next
    case True
    let ?st = "applyBadgeHighlight e h st"
    have step: "highlightColor (snd ?st) = highlightColor (snd st)"
      "MessageFlag.Subscription \<in> flags (snd ?st)"
      using applyBadgeHighlight_sub [OF Cons.prems] by simp_all
    show ?thesis
    proof (cases "highlightAlert (snd ?st) \<and> highlightSound (snd ?st)")
      case True
      then show ?thesis using \<open>badgeIsMatch e h x\<close> step by (simp add: Let_def)
    next
      case False
      then show ?thesis
        using \<open>badgeIsMatch e h x\<close> step Cons.IH [OF step(2) Cons.prems(2)]
        by (simp add: Let_def)
    qed
  qed
qed

lemma badgeHighlights_sub:
  "MessageFlag.Subscription \<in> flags (snd st) \<Longrightarrow> enableSubHighlight e \<Longrightarrow>
   highlightColor (snd (badgeHighlights e hs badges st)) = highlightColor (snd st) \<and>
   MessageFlag.Subscription \<in> flags (snd (badgeHighlights e hs badges st))"
proof (induction hs arbitrary: st)
  case Nil
  then show ?case by simp
next
  case (Cons h hs)
  have step: "highlightColor (snd (badgeInner e h badges st)) = highlightColor (snd st)"
    "MessageFlag.Subscription \<in> flags (snd (badgeInner e h badges st))"
    using badgeInner_sub [OF Cons.prems] by simp_all
  show ?case using step Cons.IH [OF step(2) Cons.prems(2)] by simp
qed

lemma subscriptionHighlight_sub:
  "MessageFlag.Subscription \<in> flags b \<Longrightarrow> enableSubHighlight e \<Longrightarrow>
   highlightColor (subscriptionHighlight e b) = Some (color e ColorType.Subscription) \<and>
   MessageFlag.Subscription \<in> flags (subscriptionHighlight e b)"
  by (simp add: subscriptionHighlight_def Let_def)

lemma whisperHighlight_color:
  "highlightColor (whisperHighlight e b) =
     (if isReceivedWhisper b \<and> enableWhisperHighlight e then Some (color e Whisper)
      else highlightColor b)"
  by (simp add: whisperHighlight_def Let_def)

lemma parseHighlights_unfold:
  "parseHighlights e b =
     (if isBlacklistedUser e (nick b) then subscriptionHighlight e b
      else case userHighlights e (highlightedUsers e)
                  (whisperHighlight e (subscriptionHighlight e b)) of
             Returned b3 \<Rightarrow> b3
           | FallThrough b3 \<Rightarrow>
               if nick b = getUserName e then b3
               else snd (badgeHighlights e (highlightedBadges e) (parseBadges (tags b))
                          (False, phraseHighlights e (activeHighlights e) b3)))"
proof (cases "userHighlights e (highlightedUsers e) (whisperHighlight e (subscriptionHighlight e b))")
  case (Returned b3)
  then show ?thesis by (simp add: parseHighlights_def Let_def)
next
  case (FallThrough b3)
  have "nick (builderOf (userHighlights e (highlightedUsers e)
           (whisperHighlight e (subscriptionHighlight e b)))) = nick b"
       "tags (builderOf (userHighlights e (highlightedUsers e)
           (whisperHighlight e (subscriptionHighlight e b)))) = tags b"
    by simp_all
  then have "nick b3 = nick b" "tags b3 = tags b" using FallThrough by simp_all
  then show ?thesis using FallThrough by (simp add: parseHighlights_def Let_def)
qed

text \<open>
  Claim C3. For a message flagged as a subscription, with the sub highlight enabled, no
  user, phrase or badge rule replaces \<open>highlightColor\<close>: each of the three loops leaves
  the colour as it found it, whatever its rules and from any state of the builder, and
  the colour \<open>parseHighlights\<close> ends with is the subscription colour, or the whisper
  colour where the whisper block ran; it is never the colour of a rule.
\<close>

theorem subscription_color_kept_by_rules:
  assumes sub: "MessageFlag.Subscription \<in> flags b" and en: "enableSubHighlight e"
  shows "highlightColor (builderOf (userHighlights e us b)) = highlightColor b \<and>
         highlightColor (phraseHighlights e hs b) = highlightColor b \<and>
         highlightColor (snd (badgeHighlights e bs badges (l, b))) = highlightColor b \<and>
         highlightColor (parseHighlights e b) =
           Some (if \<not> isBlacklistedUser e (nick b) \<and> isReceivedWhisper b
                    \<and> enableWhisperHighlight e
                 then color e Whisper else color e ColorType.Subscription)"
proof -
  let ?b1 = "subscriptionHighlight e b"
  let ?b2 = "whisperHighlight e ?b1"
  let ?x = "userHighlights e (highlightedUsers e) ?b2"
  let ?c = "Some (if isReceivedWhisper b \<and> enableWhisperHighlight e
                  then color e Whisper else color e ColorType.Subscription)"
  have b1: "highlightColor ?b1 = Some (color e ColorType.Subscription)"
    "MessageFlag.Subscription \<in> flags ?b1"
    using subscriptionHighlight_sub [OF sub en] by simp_all
  have b2: "highlightColor ?b2 = ?c" "MessageFlag.Subscription \<in> flags ?b2"
    using b1 by (simp_all add: whisperHighlight_color)
  have b3: "highlightColor (builderOf ?x) = ?c" "MessageFlag.Subscription \<in> flags (builderOf ?x)"
    using userHighlights_sub [OF b2(2) en, of "highlightedUsers e"] b2(1) by simp_all
  let ?b4 = "phraseHighlights e (activeHighlights e) (builderOf ?x)"
  have b4: "highlightColor ?b4 = ?c" "MessageFlag.Subscription \<in> flags ?b4"
    using phraseHighlights_sub [OF b3(2) en, of "activeHighlights e"] b3(1) by simp_all
  have b5: "highlightColor (snd (badgeHighlights e (highlightedBadges e) (parseBadges (tags b))
              (False, ?b4))) = ?c"
    using badgeHighlights_sub [of "(False, ?b4)" e "highlightedBadges e" "parseBadges (tags b)"]
      b4 en by simp
  have whole: "highlightColor (parseHighlights e b) =
           Some (if \<not> isBlacklistedUser e (nick b) \<and> isReceivedWhisper b
                    \<and> enableWhisperHighlight e
                 then color e Whisper else color e ColorType.Subscription)"
  proof (cases "isBlacklistedUser e (nick b)")
    case True
    then show ?thesis using b1 by (simp add: parseHighlights_unfold)
  next
    case False
    show ?thesis
    proof (cases ?x)
      case (Returned b3)
      then show ?thesis using False b3 by (simp add: parseHighlights_unfold)
    next
      case (FallThrough b3)
      then show ?thesis using False b3 b5 by (simp add: parseHighlights_unfold)
    qed
  qed
  have "highlightColor (snd (badgeHighlights e bs badges (l, b))) = highlightColor b"
    using badgeHighlights_sub [of "(l, b)" e bs badges] sub en by simp
  then show ?thesis
    using userHighlights_sub [OF sub en, of us] phraseHighlights_sub [OF sub en, of hs] whole
    by simp
qed

lemma parseHighlights_sub_color:
  assumes sub: "MessageFlag.Subscription \<in> flags b" and en: "enableSubHighlight e"
  shows "highlightColor (parseHighlights e b) =
           highlightColor (if isBlacklistedUser e (nick b) then subscriptionHighlight e b
                           else whisperHighlight e (subscriptionHighlight e b))"
proof -
  let ?b1 = "subscriptionHighlight e b"
  let ?b2 = "whisperHighlight e ?b1"
  let ?x = "userHighlights e (highlightedUsers e) ?b2"
  have b1: "MessageFlag.Subscription \<in> flags ?b1"
    using subscriptionHighlight_sub [OF sub en] by simp
  then have b2: "MessageFlag.Subscription \<in> flags ?b2" by simp
  have b3: "highlightColor (builderOf ?x) = highlightColor ?b2"
    "MessageFlag.Subscription \<in> flags (builderOf ?x)"
    using userHighlights_sub [OF b2 en, of "highlightedUsers e"] by simp_all
  let ?b4 = "phraseHighlights e (activeHighlights e) (builderOf ?x)"
  have b4: "highlightColor ?b4 = highlightColor ?b2" "MessageFlag.Subscription \<in> flags ?b4"
    using phraseHighlights_sub [OF b3(2) en, of "activeHighlights e"] b3(1) by simp_all
  have b5: "highlightColor (snd (badgeHighlights e (highlightedBadges e) (parseBadges (tags b))
              (False, ?b4))) = highlightColor ?b2"
    using badgeHighlights_sub [of "(False, ?b4)" e "highlightedBadges e" "parseBadges (tags b)"]
      b4 en by simp
  show ?thesis
  proof (cases "isBlacklistedUser e (nick b)")
    case True
    then show ?thesis by (simp add: parseHighlights_unfold)
  next
    case False
    show ?thesis
    proof (cases ?x)
      case (Returned b3)
      then show ?thesis using False b3 by (simp add: parseHighlights_unfold)
    next
      case (FallThrough b3)
      then show ?thesis using False b3 b5 by (simp add: parseHighlights_unfold)
    qed
  qed
qed

text \<open>
  Claim C2, amended. The claim as stated fails on the whisper block (see the
  instances at the end): that block assigns the whisper colour without a test of the
  subscription flag. What holds for a message flagged as a subscription, with the sub
  highlight enabled: the subscription block sets the subscription colour; the colour
  \<open>parseHighlights\<close> ends with is the colour that stands after the whisper block (after
  the subscription block, for a blacklisted sender), so the user, phrase and badge
  rules never overwrite it; it is the subscription colour whenever the whisper block
  does not run, and the whisper colour where it runs.
\<close>

theorem subscription_color_kept_after_whisper:
  assumes sub: "MessageFlag.Subscription \<in> flags b" and en: "enableSubHighlight e"
  shows "highlightColor (subscriptionHighlight e b) = Some (color e ColorType.Subscription) \<and>
         highlightColor (parseHighlights e b) =
           highlightColor (if isBlacklistedUser e (nick b) then subscriptionHighlight e b
                           else whisperHighlight e (subscriptionHighlight e b)) \<and>
         (\<not> (isReceivedWhisper b \<and> enableWhisperHighlight e) \<longrightarrow>
            highlightColor (parseHighlights e b) = Some (color e ColorType.Subscription)) \<and>
         (\<not> isBlacklistedUser e (nick b) \<and> isReceivedWhisper b \<and> enableWhisperHighlight e \<longrightarrow>
            highlightColor (parseHighlights e b) = Some (color e Whisper))"
proof -
  have c1: "highlightColor (subscriptionHighlight e b) = Some (color e ColorType.Subscription)"
    using subscriptionHighlight_sub [OF sub en] by simp
  have w: "highlightColor (whisperHighlight e (subscriptionHighlight e b)) =
             (if isReceivedWhisper b \<and> enableWhisperHighlight e then Some (color e Whisper)
              else Some (color e ColorType.Subscription))"
    using c1 by (simp add: whisperHighlight_color)
  show ?thesis
    using c1 w parseHighlights_sub_color [OF sub en] by simp
qed

subsection \<open>Sound URL\<close>

lemma applyPhraseHighlight_sound:
  "highlightSound b \<Longrightarrow>
   highlightSoundUrl (applyPhraseHighlight e h b) = highlightSoundUrl b \<and>
   highlightSound (applyPhraseHighlight e h b)"
  by (simp add: applyPhraseHighlight_def Let_def)

lemma applyBadgeHighlight_sound:
  "highlightSound (snd st) \<Longrightarrow>
   highlightSoundUrl (snd (applyBadgeHighlight e h st)) = highlightSoundUrl (snd st) \<and>
   highlightSound (snd (applyBadgeHighlight e h st))"
  by (simp add: applyBadgeHighlight_def Let_def)

lemma phraseHighlights_sound:
  "highlightSound b \<Longrightarrow>
   highlightSoundUrl (phraseHighlights e hs b) = highlightSoundUrl b \<and>
   highlightSound (phraseHighlights e hs b)"
proof (induction hs arbitrary: b)
  case Nil
  then show ?case by simp
next
  case (Cons h hs)
  let ?b = "applyPhraseHighlight e h b"
  have step: "highlightSoundUrl ?b = highlightSoundUrl b" "highlightSound ?b"
    using applyPhraseHighlight_sound [OF Cons.prems] by simp_all
  show ?case using Cons.IH [OF Cons.prems] Cons.IH [OF step(2)] step Cons.prems
    by (simp add: Let_def)
qed

lemma badgeInner_sound:
  "highlightSound (snd st) \<Longrightarrow>
   highlightSoundUrl (snd (badgeInner e h badges st)) = highlightSoundUrl (snd st) \<and>
   highlightSound (snd (badgeInner e h badges st))"
proof (induction badges arbitrary: st)
  case Nil
  then show ?case by simp
next
  case (Cons x xs)
  let ?st = "applyBadgeHighlight e h st"
  have step: "highlightSoundUrl (snd ?st) = highlightSoundUrl (snd st)" "highlightSound (snd ?st)"
    using applyBadgeHighlight_sound [OF Cons.prems] by simp_all
  show ?case using Cons.IH [OF Cons.prems] Cons.IH [OF step(2)] step Cons.prems
    by (simp add: Let_def)
qed

lemma badgeHighlights_sound:
  "highlightSound (snd st) \<Longrightarrow>
   highlightSoundUrl (snd (badgeHighlights e hs badges st)) = highlightSoundUrl (snd st) \<and>
   highlightSound (snd (badgeHighlights e hs badges st))"
proof (induction hs arbitrary: st)
  case Nil
  then show ?case by simp
next
  case (Cons h hs)
  have step: "highlightSoundUrl (snd (badgeInner e h badges st)) = highlightSoundUrl (snd st)"
    "highlightSound (snd (badgeInner e h badges st))"
    using badgeInner_sound [OF Cons.prems] by simp_all
  show ?case using Cons.IH [OF step(2)] step by simp
qed

text \<open>
  Claim C1, amended. The claim as stated fails on a user rule that follows a whisper
  (the first of the instances at the end). What holds: once the sound is requested,
  the phrase loop and the badge loop never change the sound URL (each writes it only
  while \<open>highlightSound\<close> is still false), so the URL that stands when the user rules are
  done, with the sound requested, is the URL of the result; a matching user rule that
  has a sound assigns the URL unconditionally, its custom sound or the fallback.
\<close>

theorem phrase_and_badge_keep_sound_url:
  "(highlightSound b \<longrightarrow>
      highlightSoundUrl (phraseHighlights e hs b) = highlightSoundUrl b \<and>
      highlightSoundUrl (snd (badgeHighlights e bs badges (l, b))) = highlightSoundUrl b) \<and>
   (\<not> isBlacklistedUser e (nick b) \<and>
    highlightSound (builderOf (userHighlights e (highlightedUsers e)
                      (whisperHighlight e (subscriptionHighlight e b)))) \<longrightarrow>
      highlightSoundUrl (parseHighlights e b) =
        highlightSoundUrl (builderOf (userHighlights e (highlightedUsers e)
                             (whisperHighlight e (subscriptionHighlight e b))))) \<and>
   (hasSound u \<longrightarrow>
      highlightSoundUrl (applyUserHighlight e u b) =
        (if hasCustomSound u then getSoundUrl u else getFallbackHighlightSound e))"
proof (intro conjI impI)
  assume s: "highlightSound b"
  show "highlightSoundUrl (phraseHighlights e hs b) = highlightSoundUrl b"
    using phraseHighlights_sound [OF s] by simp
  show "highlightSoundUrl (snd (badgeHighlights e bs badges (l, b))) = highlightSoundUrl b"
    using badgeHighlights_sound [of "(l, b)" e bs badges] s by simp
next
  let ?x = "userHighlights e (highlightedUsers e) (whisperHighlight e (subscriptionHighlight e b))"
  assume a: "\<not> isBlacklistedUser e (nick b) \<and> highlightSound (builderOf ?x)"
  let ?b4 = "phraseHighlights e (activeHighlights e) (builderOf ?x)"
  have b4: "highlightSoundUrl ?b4 = highlightSoundUrl (builderOf ?x)" "highlightSound ?b4"
    using phraseHighlights_sound [of "builderOf ?x" e "activeHighlights e"] a by simp_all
  have b5: "highlightSoundUrl (snd (badgeHighlights e (highlightedBadges e)
              (parseBadges (tags b)) (False, ?b4))) = highlightSoundUrl (builderOf ?x)"
    using badgeHighlights_sound [of "(False, ?b4)" e "highlightedBadges e" "parseBadges (tags b)"]
      b4 by simp
  show "highlightSoundUrl (parseHighlights e b) = highlightSoundUrl (builderOf ?x)"
  proof (cases ?x)
    case (Returned b3)
    then show ?thesis using a by (simp add: parseHighlights_unfold)
  next
    case (FallThrough b3)
    then show ?thesis using a b5 by (simp add: parseHighlights_unfold)
  qed
next
  assume "hasSound u"
  then show "highlightSoundUrl (applyUserHighlight e u b) =
        (if hasCustomSound u then getSoundUrl u else getFallbackHighlightSound e)"
    by (simp add: applyUserHighlight_def Let_def)
qed

subsection \<open>User loop\<close>

lemma userHighlights_append:
  "userHighlights e (pre @ rest) b =
     (case userHighlights e pre b of
        Returned b' \<Rightarrow> Returned b'
      | FallThrough b' \<Rightarrow> userHighlights e rest b')"
  by (induction pre arbitrary: b) (simp_all add: Let_def)

lemma userHighlights_no_match:
  "\<forall>u \<in> set us. \<not> isMatch e u (nick b) \<Longrightarrow> userHighlights e us b = FallThrough b"
  by (induction us) simp_all

text \<open>
  Claim C5, amended. The claim as stated fails on a user rule that does not match
  (see the instances at the end). The test that ends the user loop stands at the end of
  the loop body, which a rule that does not match never reaches. What holds, in four
  parts. When the rules before \<open>u\<close> have not returned, \<open>u\<close> matches the sender and,
  once \<open>u\<close> is applied, the alert and the sound are both requested, then the loop
  returns at \<open>u\<close> and the result of \<open>parseHighlights\<close> is the builder as \<open>u\<close> left
  it: the rest of the user rules, the self check, the phrases and the badges are
  skipped. A rule that does not match is passed over from any state of the builder,
  whatever the alert and the sound are by then. So a list of rules none of which matches
  falls through with the builder unchanged. And then, for a sender who is neither
  blacklisted nor the current user, the phrases and the badges are evaluated on what
  the whisper block left.
\<close>

theorem user_loop_returns_only_at_matching_rule:
  "(\<not> isBlacklistedUser e (nick b) \<and> highlightedUsers e = pre @ u # rest \<and>
    userHighlights e pre (whisperHighlight e (subscriptionHighlight e b)) = FallThrough b' \<and>
    isMatch e u (nick b) \<and>
    highlightAlert (applyUserHighlight e u b') \<and> highlightSound (applyUserHighlight e u b') \<longrightarrow>
      userHighlights e (highlightedUsers e) (whisperHighlight e (subscriptionHighlight e b)) =
        Returned (applyUserHighlight e u b') \<and>
      parseHighlights e b = applyUserHighlight e u b') \<and>
   (\<not> isMatch e v (nick c) \<longrightarrow> userHighlights e (v # vs) c = userHighlights e vs c) \<and>
   ((\<forall>v \<in> set vs. \<not> isMatch e v (nick c)) \<longrightarrow> userHighlights e vs c = FallThrough c) \<and>
   (\<not> isBlacklistedUser e (nick b) \<and> nick b \<noteq> getUserName e \<and>
    (\<forall>v \<in> set (highlightedUsers e). \<not> isMatch e v (nick b)) \<longrightarrow>
      parseHighlights e b =
        snd (badgeHighlights e (highlightedBadges e) (parseBadges (tags b))
               (False, phraseHighlights e (activeHighlights e)
                         (whisperHighlight e (subscriptionHighlight e b)))))"
proof (intro conjI impI)
  assume a: "\<not> isBlacklistedUser e (nick b) \<and> highlightedUsers e = pre @ u # rest \<and>
    userHighlights e pre (whisperHighlight e (subscriptionHighlight e b)) = FallThrough b' \<and>
    isMatch e u (nick b) \<and>
    highlightAlert (applyUserHighlight e u b') \<and> highlightSound (applyUserHighlight e u b')"
  have "nick (builderOf (userHighlights e pre (whisperHighlight e (subscriptionHighlight e b))))
          = nick b"
    by simp
  then have n: "nick b' = nick b" using a by simp
  show r: "userHighlights e (highlightedUsers e) (whisperHighlight e (subscriptionHighlight e b)) =
           Returned (applyUserHighlight e u b')"
    using a n by (simp add: userHighlights_append Let_def)
  show "parseHighlights e b = applyUserHighlight e u b'"
    using r a by (simp add: parseHighlights_unfold)
next
  assume "\<not> isMatch e v (nick c)"
  then show "userHighlights e (v # vs) c = userHighlights e vs c" by simp
next
  assume "\<forall>v \<in> set vs. \<not> isMatch e v (nick c)"
  then show "userHighlights e vs c = FallThrough c" by (rule userHighlights_no_match)
next
  assume a: "\<not> isBlacklistedUser e (nick b) \<and> nick b \<noteq> getUserName e \<and>
    (\<forall>v \<in> set (highlightedUsers e). \<not> isMatch e v (nick b))"
  have "userHighlights e (highlightedUsers e) (whisperHighlight e (subscriptionHighlight e b)) =
          FallThrough (whisperHighlight e (subscriptionHighlight e b))"
    using a userHighlights_no_match
      [of "highlightedUsers e" e "whisperHighlight e (subscriptionHighlight e b)"] by simp
  then show "parseHighlights e b =
        snd (badgeHighlights e (highlightedBadges e) (parseBadges (tags b))
               (False, phraseHighlights e (activeHighlights e)
                         (whisperHighlight e (subscriptionHighlight e b))))"
    using a by (simp add: parseHighlights_unfold)
qed

subsection \<open>Self\<close>

lemma getFallbackHighlightSound_rules [simp]:
  "getFallbackHighlightSound (e\<lparr>highlightedMessages := ms, highlightedBadges := bs\<rparr>) =
     getFallbackHighlightSound e"
  by (simp add: getFallbackHighlightSound_def)

lemma subscriptionHighlight_rules [simp]:
  "subscriptionHighlight (e\<lparr>highlightedMessages := ms, highlightedBadges := bs\<rparr>) b =
     subscriptionHighlight e b"
  by (simp add: subscriptionHighlight_def Let_def)

lemma whisperHighlight_rules [simp]:
  "whisperHighlight (e\<lparr>highlightedMessages := ms, highlightedBadges := bs\<rparr>) b =
     whisperHighlight e b"
  by (simp add: whisperHighlight_def Let_def)

lemma applyUserHighlight_rules [simp]:
  "applyUserHighlight (e\<lparr>highlightedMessages := ms, highlightedBadges := bs\<rparr>) u b =
     applyUserHighlight e u b"
  by (simp add: applyUserHighlight_def Let_def)

lemma userHighlights_rules [simp]:
  "userHighlights (e\<lparr>highlightedMessages := ms, highlightedBadges := bs\<rparr>) us b =
     userHighlights e us b"
  by (induction us arbitrary: b) (simp_all add: Let_def)

text \<open>
  Claim C6. For a sender whose name is the current user's name, \<open>parseHighlights\<close>
  returns before the phrases and the badges: its result is the builder as the user
  rules left it (or as the subscription block left it, for a blacklisted sender), and
  it is the same whatever the highlight phrases and the badge rules are, so no phrase or
  badge rule highlights the message even when its pattern matches.
\<close>

theorem own_message_skips_phrases_and_badges:
  assumes self: "nick b = getUserName e"
  shows "parseHighlights e b =
           (if isBlacklistedUser e (nick b) then subscriptionHighlight e b
            else builderOf (userHighlights e (highlightedUsers e)
                   (whisperHighlight e (subscriptionHighlight e b)))) \<and>
         parseHighlights (e\<lparr>highlightedMessages := ms, highlightedBadges := bs\<rparr>) b =
           parseHighlights e b"
proof -
  have own: "parseHighlights e' b =
           (if isBlacklistedUser e' (nick b) then subscriptionHighlight e' b
            else builderOf (userHighlights e' (highlightedUsers e')
                   (whisperHighlight e' (subscriptionHighlight e' b))))"
    if "nick b = getUserName e'" for e'
    using that
    by (cases "userHighlights e' (highlightedUsers e')
                 (whisperHighlight e' (subscriptionHighlight e' b))")
       (simp_all add: parseHighlights_unfold)
  show ?thesis
    using own [of e] own [of "e\<lparr>highlightedMessages := ms, highlightedBadges := bs\<rparr>"] self
    by simp
qed

subsection \<open>Whisper and the Highlighted flag\<close>

lemma applyUserHighlight_Highlighted: "Highlighted \<in> flags (applyUserHighlight e u b)"
  by (simp add: applyUserHighlight_def Let_def)

lemma applyPhraseHighlight_Highlighted: "Highlighted \<in> flags (applyPhraseHighlight e u b)"
  by (simp add: applyPhraseHighlight_def Let_def)

lemma applyUserHighlight_mono: "f \<in> flags b \<Longrightarrow> f \<in> flags (applyUserHighlight e u b)"
  by (simp add: applyUserHighlight_def Let_def)

lemma applyPhraseHighlight_mono: "f \<in> flags b \<Longrightarrow> f \<in> flags (applyPhraseHighlight e u b)"
  by (simp add: applyPhraseHighlight_def Let_def)

lemma userHighlights_mono: "f \<in> flags b \<Longrightarrow> f \<in> flags (builderOf (userHighlights e us b))"
  by (induction us arbitrary: b) (simp_all add: Let_def applyUserHighlight_mono)

lemma phraseHighlights_mono: "f \<in> flags b \<Longrightarrow> f \<in> flags (phraseHighlights e hs b)"
  by (induction hs arbitrary: b) (simp_all add: Let_def applyPhraseHighlight_mono)

lemma userHighlights_match:
  "\<exists>u \<in> set us. isMatch e u (nick b) \<Longrightarrow>
   Highlighted \<in> flags (builderOf (userHighlights e us b))"
proof (induction us arbitrary: b)
  case Nil
  then show ?case by simp
next
  case (Cons u us)
  show ?case
  proof (cases "isMatch e u (nick b)")
    case True
    have "Highlighted \<in> flags (builderOf (userHighlights e us (applyUserHighlight e u b)))"
      by (rule userHighlights_mono [OF applyUserHighlight_Highlighted])
    then show ?thesis
      using True by (simp add: Let_def applyUserHighlight_Highlighted)
  next
    case False
    then show ?thesis using Cons by simp
  qed
qed

lemma phraseHighlights_match:
  "\<exists>h \<in> set hs. isMatch e h (originalMessage b) \<Longrightarrow>
   Highlighted \<in> flags (phraseHighlights e hs b)"
proof (induction hs arbitrary: b)
  case Nil
  then show ?case by simp
next
  case (Cons h hs)
  show ?case
  proof (cases "isMatch e h (originalMessage b)")
    case True
    have "Highlighted \<in> flags (phraseHighlights e hs (applyPhraseHighlight e h b))"
      by (rule phraseHighlights_mono [OF applyPhraseHighlight_Highlighted])
    then show ?thesis
      using True by (simp add: Let_def applyPhraseHighlight_Highlighted)
  next
    case False
    then show ?thesis using Cons by simp
  qed
qed

lemma phraseHighlights_no_match:
  "\<forall>h \<in> set hs. \<not> isMatch e h (originalMessage b) \<Longrightarrow> phraseHighlights e hs b = b"
  by (induction hs) simp_all

lemma badgeInner_no_match:
  "\<forall>x \<in> set badges. \<not> badgeIsMatch e h x \<Longrightarrow> badgeInner e h badges st = st"
  by (induction badges) simp_all

lemma badgeHighlights_no_match:
  "\<forall>h \<in> set hs. \<forall>x \<in> set badges. \<not> badgeIsMatch e h x \<Longrightarrow>
   badgeHighlights e hs badges st = st"
  by (induction hs arbitrary: st) (simp_all add: badgeInner_no_match)

text \<open>The badge loops: once the latch is set, the flag is set.\<close>

lemma applyBadgeHighlight_done:
  "(fst st \<longrightarrow> Highlighted \<in> flags (snd st)) \<Longrightarrow>
   fst (applyBadgeHighlight e h st) \<and> Highlighted \<in> flags (snd (applyBadgeHighlight e h st))"
  by (simp add: applyBadgeHighlight_def Let_def)

lemma badgeInner_done:
  "fst st \<and> Highlighted \<in> flags (snd st) \<Longrightarrow>
   fst (badgeInner e h badges st) \<and> Highlighted \<in> flags (snd (badgeInner e h badges st))"
proof (induction badges arbitrary: st)
  case Nil
  then show ?case by simp
next
  case (Cons x xs)
  have "fst (applyBadgeHighlight e h st) \<and> Highlighted \<in> flags (snd (applyBadgeHighlight e h st))"
    using applyBadgeHighlight_done [of st e h] Cons.prems by simp
  then show ?case
    using Cons.IH [of "applyBadgeHighlight e h st"] Cons.IH [OF Cons.prems]
    by (simp add: Let_def)
qed

lemma badgeInner_latch:
  "(fst st \<longrightarrow> Highlighted \<in> flags (snd st)) \<Longrightarrow>
   (fst (badgeInner e h badges st) \<longrightarrow> Highlighted \<in> flags (snd (badgeInner e h badges st)))"
proof (induction badges arbitrary: st)
  case Nil
  then show ?case by simp
next
  case (Cons x xs)
  have a: "fst (applyBadgeHighlight e h st) \<and> Highlighted \<in> flags (snd (applyBadgeHighlight e h st))"
    using applyBadgeHighlight_done [OF Cons.prems] .
  show ?case
    using a Cons.IH [of "applyBadgeHighlight e h st"] Cons.IH [OF Cons.prems]
    by (simp add: Let_def)
qed

lemma badgeInner_match:
  "(fst st \<longrightarrow> Highlighted \<in> flags (snd st)) \<Longrightarrow> \<exists>x \<in> set badges. badgeIsMatch e h x \<Longrightarrow>
   fst (badgeInner e h badges st) \<and> Highlighted \<in> flags (snd (badgeInner e h badges st))"
proof (induction badges arbitrary: st)
  case Nil
  then show ?case by simp
next
  case (Cons x xs)
  show ?case
  proof (cases "badgeIsMatch e h x")
    case True
    have a: "fst (applyBadgeHighlight e h st) \<and>
             Highlighted \<in> flags (snd (applyBadgeHighlight e h st))"
      using applyBadgeHighlight_done [OF Cons.prems(1)] .
    show ?thesis
      using True a badgeInner_done [OF a, of e h xs] by (simp add: Let_def)
  next
    case False
    then show ?thesis using Cons by simp
  qed
qed

lemma badgeHighlights_done:
  "fst st \<and> Highlighted \<in> flags (snd st) \<Longrightarrow>
   fst (badgeHighlights e hs badges st) \<and> Highlighted \<in> flags (snd (badgeHighlights e hs badges st))"
  by (induction hs arbitrary: st) (simp_all add: badgeInner_done)

lemma badgeHighlights_match:
  "(fst st \<longrightarrow> Highlighted \<in> flags (snd st)) \<Longrightarrow>
   \<exists>h \<in> set hs. \<exists>x \<in> set badges. badgeIsMatch e h x \<Longrightarrow>
   Highlighted \<in> flags (snd (badgeHighlights e hs badges st))"
proof (induction hs arbitrary: st)
  case Nil
  then show ?case by simp
next
  case (Cons h hs)
  show ?case
  proof (cases "\<exists>x \<in> set badges. badgeIsMatch e h x")
    case True
    show ?thesis
      using badgeHighlights_done [OF badgeInner_match [OF Cons.prems(1) True], of e hs badges]
      by simp
  next
    case False
    then have "\<exists>h \<in> set hs. \<exists>x \<in> set badges. badgeIsMatch e h x"
      using Cons.prems(2) by auto
    then show ?thesis
      using Cons.IH [OF badgeInner_latch [OF Cons.prems(1)]] by simp
  qed
qed

text \<open>
  Claim C10. The whisper block never touches the flags, so it never sets
  \<open>Highlighted\<close>. Where it runs it sets the whisper colour and, by their settings, the
  alert and the sound. For a message that no other category matches, the result of
  \<open>parseHighlights\<close> is that of the whisper block and the flags are those it started
  with. The other categories do set \<open>Highlighted\<close> on a match: the subscription block,
  and the user, phrase and badge loops whenever one of their rules matches.
\<close>

theorem whisper_leaves_Highlighted_unset:
  "flags (whisperHighlight e b) = flags b \<and>
   (isReceivedWhisper b \<and> enableWhisperHighlight e \<longrightarrow>
      highlightColor (whisperHighlight e b) = Some (color e Whisper) \<and>
      highlightAlert (whisperHighlight e b) = (highlightAlert b \<or> enableWhisperHighlightTaskbar e) \<and>
      highlightSound (whisperHighlight e b) = (highlightSound b \<or> enableWhisperHighlightSound e)) \<and>
   (\<not> (MessageFlag.Subscription \<in> flags b \<and> enableSubHighlight e) \<and>
    \<not> isBlacklistedUser e (nick b) \<and>
    (\<forall>u \<in> set (highlightedUsers e). \<not> isMatch e u (nick b)) \<and>
    (\<forall>h \<in> set (activeHighlights e). \<not> isMatch e h (originalMessage b)) \<and>
    (\<forall>h \<in> set (highlightedBadges e). \<forall>x \<in> set (parseBadges (tags b)). \<not> badgeIsMatch e h x) \<longrightarrow>
      parseHighlights e b = whisperHighlight e b \<and>
      flags (parseHighlights e b) = flags b) \<and>
   (MessageFlag.Subscription \<in> flags b \<and> enableSubHighlight e \<longrightarrow>
      Highlighted \<in> flags (subscriptionHighlight e b)) \<and>
   ((\<exists>u \<in> set us. isMatch e u (nick b)) \<longrightarrow>
      Highlighted \<in> flags (builderOf (userHighlights e us b))) \<and>
   ((\<exists>h \<in> set hs. isMatch e h (originalMessage b)) \<longrightarrow>
      Highlighted \<in> flags (phraseHighlights e hs b)) \<and>
   ((\<exists>h \<in> set bs. \<exists>x \<in> set badges. badgeIsMatch e h x) \<longrightarrow>
      Highlighted \<in> flags (snd (badgeHighlights e bs badges (False, b))))"
proof (intro conjI impI)
  show "flags (whisperHighlight e b) = flags b" by simp
next
  assume w: "isReceivedWhisper b \<and> enableWhisperHighlight e"
  then show "highlightColor (whisperHighlight e b) = Some (color e Whisper)"
    by (simp add: whisperHighlight_color)
  show "highlightAlert (whisperHighlight e b) = (highlightAlert b \<or> enableWhisperHighlightTaskbar e)"
    using w by (simp add: whisperHighlight_def Let_def)
  show "highlightSound (whisperHighlight e b) = (highlightSound b \<or> enableWhisperHighlightSound e)"
    using w by (simp add: whisperHighlight_def Let_def)
next
  assume a: "\<not> (MessageFlag.Subscription \<in> flags b \<and> enableSubHighlight e) \<and>
    \<not> isBlacklistedUser e (nick b) \<and>
    (\<forall>u \<in> set (highlightedUsers e). \<not> isMatch e u (nick b)) \<and>
    (\<forall>h \<in> set (activeHighlights e). \<not> isMatch e h (originalMessage b)) \<and>
    (\<forall>h \<in> set (highlightedBadges e). \<forall>x \<in> set (parseBadges (tags b)). \<not> badgeIsMatch e h x)"
  have "\<not> (MessageFlag.Subscription \<in> flags b \<and> enableSubHighlight e)" using a by blast
  then have s: "subscriptionHighlight e b = b"
    unfolding subscriptionHighlight_def by (rule if_not_P)
  have u: "userHighlights e (highlightedUsers e) (whisperHighlight e b) =
             FallThrough (whisperHighlight e b)"
    using a userHighlights_no_match [of "highlightedUsers e" e "whisperHighlight e b"] by simp
  have p: "phraseHighlights e (activeHighlights e) (whisperHighlight e b) = whisperHighlight e b"
    using a phraseHighlights_no_match [of "activeHighlights e" e "whisperHighlight e b"] by simp
  have g: "badgeHighlights e (highlightedBadges e) (parseBadges (tags b))
             (False, whisperHighlight e b) = (False, whisperHighlight e b)"
    using a badgeHighlights_no_match by simp
  show r: "parseHighlights e b = whisperHighlight e b"
    using a s u p g by (simp add: parseHighlights_unfold)
  show "flags (parseHighlights e b) = flags b" using r by simp
next
  assume "MessageFlag.Subscription \<in> flags b \<and> enableSubHighlight e"
  then show "Highlighted \<in> flags (subscriptionHighlight e b)"
    by (simp add: subscriptionHighlight_def Let_def)
next
  assume "\<exists>u \<in> set us. isMatch e u (nick b)"
  then show "Highlighted \<in> flags (builderOf (userHighlights e us b))"
    by (rule userHighlights_match)
next
  assume "\<exists>h \<in> set hs. isMatch e h (originalMessage b)"
  then show "Highlighted \<in> flags (phraseHighlights e hs b)"
    by (rule phraseHighlights_match)
next
  assume "\<exists>h \<in> set bs. \<exists>x \<in> set badges. badgeIsMatch e h x"
  then show "Highlighted \<in> flags (snd (badgeHighlights e bs badges (False, b)))"
    using badgeHighlights_match [of "(False, b)" bs badges e] by simp
qed

subsection \<open>Dispatcher\<close>

text \<open>
  Claim C8, amended. The claim as stated fails where there is no player (see the
  instances at the end).
  \<open>triggerHighlights\<close> makes no call in streamer mode with muted mentions, nor for a muted
  channel. Otherwise \<^verbatim>\<open>play\<close> is called if and only if the sound is requested, the
  application has no focus or the sound is always played, and there is a player, which
  is so on the GUI thread only; \<^verbatim>\<open>sendAlert\<close> is called if and only if the alert is
  requested, whatever the focus. Each of the two is called at most once.
\<close>

theorem triggerHighlights_calls:
  "(isInStreamerMode e \<and> streamerModeMuteMentions e \<or> isMutedChannel e (channelName b) \<longrightarrow>
      triggerHighlights e b url = ([], url)) \<and>
   (\<not> (isInStreamerMode e \<and> streamerModeMuteMentions e) \<and> \<not> isMutedChannel e (channelName b) \<longrightarrow>
      (Play \<in> set (fst (triggerHighlights e b url)) \<longleftrightarrow>
         highlightSound b \<and> (\<not> focusWidget e \<or> highlightAlwaysPlaySound e) \<and> isGuiThread e) \<and>
      (SendAlert \<in> set (fst (triggerHighlights e b url)) \<longleftrightarrow> highlightAlert b)) \<and>
   count_list (fst (triggerHighlights e b url)) Play \<le> 1 \<and>
   count_list (fst (triggerHighlights e b url)) SendAlert \<le> 1"
  by (simp add: triggerHighlights_def Let_def)


subsection \<open>Instances\<close>

text \<open>
  Claim C1 as stated fails here: a received whisper sets the sound and its URL,
  \<^verbatim>\<open>whisper.wav\<close>; the user rule for the sender, evaluated later, has a sound of its own
  and replaces the URL.
\<close>

theorem user_rule_replaces_whisper_sound_url:
  "highlightSound
     (whisperHighlight (exampleEnv\<lparr>highlightedUsers := [exampleRule ''alice'' False True ''user.wav'' 7]\<rparr>)
       (subscriptionHighlight (exampleEnv\<lparr>highlightedUsers := [exampleRule ''alice'' False True ''user.wav'' 7]\<rparr>)
         (exampleMessage\<lparr>isReceivedWhisper := True\<rparr>))) \<and>
   highlightSoundUrl
     (whisperHighlight (exampleEnv\<lparr>highlightedUsers := [exampleRule ''alice'' False True ''user.wav'' 7]\<rparr>)
       (subscriptionHighlight (exampleEnv\<lparr>highlightedUsers := [exampleRule ''alice'' False True ''user.wav'' 7]\<rparr>)
         (exampleMessage\<lparr>isReceivedWhisper := True\<rparr>))) = QUrl ''whisper.wav'' \<and>
   highlightSoundUrl
     (parseHighlights (exampleEnv\<lparr>highlightedUsers := [exampleRule ''alice'' False True ''user.wav'' 7]\<rparr>)
       (exampleMessage\<lparr>isReceivedWhisper := True\<rparr>)) = QUrl ''user.wav''"
  by (simp add: example_defs)

text \<open>
  An instance: the whisper sets the URL; a phrase rule and a badge rule that match, each
  with a sound of its own, leave it; a user rule replaces it.
\<close>

theorem phrase_and_badge_keep_sound_url_witness:
  "highlightSound (whisperHighlight exampleEnv (exampleMessage\<lparr>isReceivedWhisper := True\<rparr>)) \<and>
   highlightSoundUrl
     (parseHighlights
        (exampleEnv\<lparr>highlightedMessages := [exampleRule ''hello'' False True ''phrase.wav'' 9],
                     highlightedBadges := [exampleBadgeRule ''subscriber'' False True ''badge.wav'' 5]\<rparr>)
        (exampleMessage\<lparr>isReceivedWhisper := True\<rparr>)) = QUrl ''whisper.wav'' \<and>
   highlightSoundUrl
     (applyUserHighlight exampleEnv (exampleRule ''alice'' False True ''user.wav'' 7)
        (whisperHighlight exampleEnv (exampleMessage\<lparr>isReceivedWhisper := True\<rparr>))) =
     QUrl ''user.wav''"
  using phrase_and_badge_keep_sound_url
    [where e = "exampleEnv\<lparr>highlightedMessages := [exampleRule ''hello'' False True ''phrase.wav'' 9],
                     highlightedBadges := [exampleBadgeRule ''subscriber'' False True ''badge.wav'' 5]\<rparr>"
       and b = "exampleMessage\<lparr>isReceivedWhisper := True\<rparr>"
       and u = "exampleRule ''alice'' False True ''user.wav'' 7"
       and hs = "[]" and bs = "[]" and badges = "[]" and l = False]
  by (simp add: example_defs)

text \<open>
  Claim C2 as stated fails here. The message is flagged as a subscription and is a
  received whisper, and both highlights are enabled: the subscription block sets the
  subscription colour, and the whisper block, evaluated later, replaces it with the
  whisper colour.
\<close>

theorem whisper_replaces_subscription_color:
  "highlightColor
     (subscriptionHighlight exampleEnv
        (exampleMessage\<lparr>isReceivedWhisper := True, flags := {MessageFlag.Subscription}\<rparr>)) =
     Some (QColor 2) \<and>
   highlightColor
     (parseHighlights exampleEnv
        (exampleMessage\<lparr>isReceivedWhisper := True, flags := {MessageFlag.Subscription}\<rparr>)) =
     Some (QColor 3)"
  by (simp add: example_defs)

text \<open>
  Two instances: a subscription message that a user rule, a phrase and a badge rule
  match, each with an alert or a sound, keeps the subscription colour; one that is a
  received whisper too ends with the whisper colour.
\<close>

theorem subscription_color_kept_after_whisper_witness:
  "highlightColor
     (parseHighlights
        (exampleEnv\<lparr>highlightedUsers := [exampleRule ''alice'' True False [] 7],
                     highlightedMessages := [exampleRule ''hello'' False True [] 9],
                     highlightedBadges := [exampleBadgeRule ''subscriber'' True True [] 5]\<rparr>)
        (exampleMessage\<lparr>flags := {MessageFlag.Subscription, Collapsed}\<rparr>)) = Some (QColor 2) \<and>
   highlightColor
     (parseHighlights
        (exampleEnv\<lparr>highlightedUsers := [exampleRule ''alice'' True False [] 7]\<rparr>)
        (exampleMessage\<lparr>isReceivedWhisper := True, flags := {MessageFlag.Subscription}\<rparr>)) =
     Some (QColor 3)"
  using subscription_color_kept_after_whisper
    [where e = "exampleEnv\<lparr>highlightedUsers := [exampleRule ''alice'' True False [] 7],
                     highlightedMessages := [exampleRule ''hello'' False True [] 9],
                     highlightedBadges := [exampleBadgeRule ''subscriber'' True True [] 5]\<rparr>"
       and b = "exampleMessage\<lparr>flags := {MessageFlag.Subscription, Collapsed}\<rparr>"]
    subscription_color_kept_after_whisper
    [where e = "exampleEnv\<lparr>highlightedUsers := [exampleRule ''alice'' True False [] 7]\<rparr>"
       and b = "exampleMessage\<lparr>isReceivedWhisper := True, flags := {MessageFlag.Subscription}\<rparr>"]
  by (simp add: exampleEnv_def exampleMessage_def subscriptionHighlight_def whisperHighlight_def Let_def)

text \<open>
  An instance: a subscription message that a user rule, a phrase and a badge rule match
  keeps the subscription colour.
\<close>

theorem subscription_color_kept_by_rules_witness:
  "highlightColor
     (parseHighlights
        (exampleEnv\<lparr>highlightedUsers := [exampleRule ''alice'' False False [] 7],
                     highlightedMessages := [exampleRule ''hello'' False False [] 9],
                     highlightedBadges := [exampleBadgeRule ''subscriber'' False False [] 5]\<rparr>)
        (exampleMessage\<lparr>flags := {MessageFlag.Subscription}\<rparr>)) = Some (QColor 2)"
  using subscription_color_kept_by_rules
    [where e = "exampleEnv\<lparr>highlightedUsers := [exampleRule ''alice'' False False [] 7],
                     highlightedMessages := [exampleRule ''hello'' False False [] 9],
                     highlightedBadges := [exampleBadgeRule ''subscriber'' False False [] 5]\<rparr>"
       and b = "exampleMessage\<lparr>flags := {MessageFlag.Subscription}\<rparr>"
       and us = "[]" and hs = "[]" and bs = "[]" and badges = "[]" and l = False]
  by (simp add: exampleEnv_def exampleMessage_def)

text \<open>
  An instance: the blacklisted sender's whisper, which a user rule and a phrase match,
  comes out as it went in.
\<close>

theorem blacklisted_sender_witness:
  "isBlacklistedUser exampleEnv ''troll'' \<and>
   parseHighlights
     (exampleEnv\<lparr>highlightedUsers := [exampleRule ''troll'' True True [] 7],
                  highlightedMessages := [exampleRule ''hello'' True True [] 9]\<rparr>)
     (exampleMessage\<lparr>nick := ''troll'', isReceivedWhisper := True\<rparr>) =
   exampleMessage\<lparr>nick := ''troll'', isReceivedWhisper := True\<rparr>"
  using blacklisted_sender_returns_after_subscription
    [where e = "exampleEnv\<lparr>highlightedUsers := [exampleRule ''troll'' True True [] 7],
                  highlightedMessages := [exampleRule ''hello'' True True [] 9]\<rparr>"
       and b = "exampleMessage\<lparr>nick := ''troll'', isReceivedWhisper := True\<rparr>"]
  by (simp add: exampleEnv_def exampleMessage_def subscriptionHighlight_def)

text \<open>
  Claim C5 as stated fails here: the whisper block has requested both the alert and the
  sound; the one user rule does not match the sender, and after it the loop does not
  return: it falls through, and the phrase that matches sets \<open>Highlighted\<close>.
\<close>

theorem unmatched_user_rule_does_not_return:
  "highlightAlert (whisperHighlight exampleEnv (exampleMessage\<lparr>isReceivedWhisper := True\<rparr>)) \<and>
   highlightSound (whisperHighlight exampleEnv (exampleMessage\<lparr>isReceivedWhisper := True\<rparr>)) \<and>
   userHighlights exampleEnv [exampleRule ''bob'' True True [] 7]
     (whisperHighlight exampleEnv (exampleMessage\<lparr>isReceivedWhisper := True\<rparr>)) =
     FallThrough (whisperHighlight exampleEnv (exampleMessage\<lparr>isReceivedWhisper := True\<rparr>)) \<and>
   Highlighted \<notin> flags (whisperHighlight exampleEnv (exampleMessage\<lparr>isReceivedWhisper := True\<rparr>)) \<and>
   Highlighted \<in> flags
     (parseHighlights
        (exampleEnv\<lparr>highlightedUsers := [exampleRule ''bob'' True True [] 7],
                     highlightedMessages := [exampleRule ''hello'' False False [] 9]\<rparr>)
        (exampleMessage\<lparr>isReceivedWhisper := True\<rparr>))"
  by (simp add: example_defs)

text \<open>
  Two instances: the first rule does not match, the second matches and requests the
  alert and the sound, and the third rule, which matches too, and the phrase are never
  applied; with the alert and the sound already requested, two rules that do not match
  fall through.
\<close>

theorem user_loop_returns_only_at_matching_rule_witness:
  "parseHighlights
     (exampleEnv\<lparr>highlightedUsers :=
                    [exampleRule ''bob'' True True [] 7, exampleRule ''alice'' True True ''user.wav'' 8,
                     exampleRule ''alice'' True True ''late.wav'' 6],
                  highlightedMessages := [exampleRule ''hello'' False False [] 9]\<rparr>)
     exampleMessage =
   exampleMessage\<lparr>flags := {Highlighted}, highlightColor := Some (QColor 8),
                   highlightAlert := True, highlightSound := True,
                   highlightSoundUrl := QUrl ''user.wav''\<rparr> \<and>
   userHighlights exampleEnv [exampleRule ''bob'' True True [] 7, exampleRule ''carol'' True True [] 6]
     (exampleMessage\<lparr>highlightAlert := True, highlightSound := True\<rparr>) =
     FallThrough (exampleMessage\<lparr>highlightAlert := True, highlightSound := True\<rparr>)"
  using user_loop_returns_only_at_matching_rule
    [where e = "exampleEnv\<lparr>highlightedUsers :=
                    [exampleRule ''bob'' True True [] 7, exampleRule ''alice'' True True ''user.wav'' 8,
                     exampleRule ''alice'' True True ''late.wav'' 6],
                  highlightedMessages := [exampleRule ''hello'' False False [] 9]\<rparr>"
       and b = exampleMessage and b' = exampleMessage
       and pre = "[exampleRule ''bob'' True True [] 7]"
       and u = "exampleRule ''alice'' True True ''user.wav'' 8"
       and rest = "[exampleRule ''alice'' True True ''late.wav'' 6]"
       and v = "exampleRule ''bob'' True True [] 7" and vs = "[]" and c = exampleMessage]
    user_loop_returns_only_at_matching_rule
    [where e = exampleEnv and b = exampleMessage and b' = exampleMessage
       and pre = "[]" and u = "exampleRule ''bob'' True True [] 7" and rest = "[]"
       and v = "exampleRule ''bob'' True True [] 7"
       and vs = "[exampleRule ''bob'' True True [] 7, exampleRule ''carol'' True True [] 6]"
       and c = "exampleMessage\<lparr>highlightAlert := True, highlightSound := True\<rparr>"]
  by (simp add: example_defs)

text \<open>
  An instance: the current user's own message, whose text a phrase matches and whose
  badge a badge rule matches, is left as it was.
\<close>

theorem own_message_witness:
  "nick (exampleMessage\<lparr>nick := ''me''\<rparr>) = getUserName exampleEnv \<and>
   parseHighlights
     (exampleEnv\<lparr>highlightedMessages := [exampleRule ''hello'' True True [] 9],
                  highlightedBadges := [exampleBadgeRule ''subscriber'' True True [] 5]\<rparr>)
     (exampleMessage\<lparr>nick := ''me''\<rparr>) =
   exampleMessage\<lparr>nick := ''me''\<rparr>"
  using own_message_skips_phrases_and_badges
    [where e = exampleEnv and b = "exampleMessage\<lparr>nick := ''me''\<rparr>"
       and ms = "[exampleRule ''hello'' True True [] 9]"
       and bs = "[exampleBadgeRule ''subscriber'' True True [] 5]"]
  by (simp add: exampleEnv_def exampleMessage_def subscriptionHighlight_def whisperHighlight_def)

text \<open>
  Claim C8 as stated fails here: the sound is requested, the application has no focus,
  nothing is muted, and off the GUI thread there is no player: \<^verbatim>\<open>play\<close> is not called.
\<close>

theorem no_player_no_sound:
  "highlightSound (exampleMessage\<lparr>highlightSound := True\<rparr>) \<and>
   \<not> focusWidget (exampleEnv\<lparr>isGuiThread := False\<rparr>) \<and>
   \<not> isInStreamerMode (exampleEnv\<lparr>isGuiThread := False\<rparr>) \<and>
   \<not> isMutedChannel (exampleEnv\<lparr>isGuiThread := False\<rparr>)
        (channelName (exampleMessage\<lparr>highlightSound := True\<rparr>)) \<and>
   triggerHighlights (exampleEnv\<lparr>isGuiThread := False\<rparr>)
     (exampleMessage\<lparr>highlightSound := True\<rparr>) (QUrl []) = ([], QUrl [])"
  by (simp add: example_defs)

text \<open>
  Two instances: one sound and one alert; nothing at all in a muted channel.
\<close>

theorem triggerHighlights_calls_witness:
  "triggerHighlights exampleEnv
     (exampleMessage\<lparr>highlightSound := True, highlightAlert := True,
                     highlightSoundUrl := QUrl ''user.wav''\<rparr>) (QUrl []) =
     ([SetMedia (QUrl ''user.wav''), Play, SendAlert], QUrl ''user.wav'') \<and>
   triggerHighlights exampleEnv
     (exampleMessage\<lparr>channelName := ''quiet'', highlightSound := True, highlightAlert := True\<rparr>)
     (QUrl []) = ([], QUrl [])"
  using triggerHighlights_calls
    [where e = exampleEnv
       and b = "exampleMessage\<lparr>highlightSound := True, highlightAlert := True,
                     highlightSoundUrl := QUrl ''user.wav''\<rparr>" and url = "QUrl []"]
    triggerHighlights_calls
    [where e = exampleEnv
       and b = "exampleMessage\<lparr>channelName := ''quiet'', highlightSound := True,
                     highlightAlert := True\<rparr>" and url = "QUrl []"]
  by (simp add: example_defs)

text \<open>
  Two instances: the custom file when it is there, the built-in sound when the option
  is on and the file is missing.
\<close>

theorem getFallbackHighlightSound_witness:
  "getFallbackHighlightSound
     (exampleEnv\<lparr>customHighlightSound := True, fileExists := (\<lambda>p. p = ''/home/user/ping.wav''),
                  isFile := (\<lambda>p. p = ''/home/user/ping.wav'')\<rparr>) =
     fromLocalFile ''/home/user/ping.wav'' \<and>
   getFallbackHighlightSound (exampleEnv\<lparr>customHighlightSound := True\<rparr>) =
     QUrl ''qrc:/sounds/ping2.wav''"
  using getFallbackHighlightSound_cases
    [of "exampleEnv\<lparr>customHighlightSound := True, fileExists := (\<lambda>p. p = ''/home/user/ping.wav''),
                  isFile := (\<lambda>p. p = ''/home/user/ping.wav'')\<rparr>"]
    getFallbackHighlightSound_cases [of "exampleEnv\<lparr>customHighlightSound := True\<rparr>"]
  by (simp add: exampleEnv_def)

text \<open>
  Two instances: a whisper that no rule matches gets the whisper colour, the alert and
  the sound, and no flag; a badge rule that matches sets \<open>Highlighted\<close>.
\<close>

theorem whisper_leaves_Highlighted_unset_witness:
  "parseHighlights
     (exampleEnv\<lparr>highlightedUsers := [exampleRule ''bob'' True True [] 7],
                  highlightedMessages := [exampleRule ''bye'' True True [] 9],
                  highlightedBadges := [exampleBadgeRule ''moderator'' True True [] 5]\<rparr>)
     (exampleMessage\<lparr>isReceivedWhisper := True\<rparr>) =
   exampleMessage\<lparr>isReceivedWhisper := True, highlightColor := Some (QColor 3),
                   highlightAlert := True, highlightSound := True,
                   highlightSoundUrl := QUrl ''whisper.wav''\<rparr> \<and>
   Highlighted \<in> flags
     (snd (badgeHighlights exampleEnv [exampleBadgeRule ''subscriber'' False False [] 5]
             [Badge ''subscriber'' ''12''] (False, exampleMessage)))"
  using whisper_leaves_Highlighted_unset
    [where e = "exampleEnv\<lparr>highlightedUsers := [exampleRule ''bob'' True True [] 7],
                  highlightedMessages := [exampleRule ''bye'' True True [] 9],
                  highlightedBadges := [exampleBadgeRule ''moderator'' True True [] 5]\<rparr>"
       and b = "exampleMessage\<lparr>isReceivedWhisper := True\<rparr>"
       and us = "[]" and hs = "[]" and bs = "[]" and badges = "[]"]
    whisper_leaves_Highlighted_unset
    [where e = exampleEnv and b = exampleMessage
       and us = "[]" and hs = "[]"
       and bs = "[exampleBadgeRule ''subscriber'' False False [] 5]"
       and badges = "[Badge ''subscriber'' ''12'']"]
  by (simp add: example_defs)

end
